theory Spec2Isabelle
  imports Complex_Main "HOL-Library.AList" "HOL-Library.Multiset" "HOL-Library.Sublist"
begin

section \<open>Data model\<close>

text \<open>
  A JavaScript \<open>Date\<close> is a time value in milliseconds since the epoch, or the
  Invalid Date. The records the store keeps (\<open>ProcessedVideo\<close>, the \<open>State\<close> maps)
  carry the time value of a valid date as an \<open>int\<close>: the scheduler only stores
  \<open>new Date()\<close>. A \<open>VideoMetadata\<close> comes from the scraper, which builds
  \<open>publishedAt\<close> as \<open>new Date(video.create_time * 1000)\<close> from the response and so may
  produce the Invalid Date; and \<open>load\<close> builds dates from untyped file content.
  Numbers of the program (\<open>retryCount\<close>, \<open>maxRetries\<close>, \<open>attempts\<close>, \<open>limit\<close>) are
  integer valued and modelled as \<open>int\<close>.
\<close>

datatype jsdate = Date int | InvalidDate

datatype webhook_status = pending | sent | failed

text \<open>\<open>interface ProcessedVideo\<close> (state-manager.ts).\<close>

record ProcessedVideo =
  videoId :: string
  author :: string
  processedAt :: int
  webhookStatus :: webhook_status
  retryCount :: int

text \<open>\<open>interface VideoMetadata\<close> (tiktok-scraper.ts); optional fields are options.\<close>

record VideoStats =
  plays :: int
  likes :: int
  comments :: int
  shares :: int

record VideoMetadata =
  vm_id :: string
  vm_url :: string
  vm_downloadUrl :: string
  vm_description :: string
  vm_author :: string
  vm_publishedAt :: jsdate
  vm_thumbnailUrl :: "string option"
  vm_duration :: "int option"
  vm_stats :: "VideoStats option"

text \<open>\<open>interface WebhookPayload\<close> and \<open>interface WebhookResult\<close> (webhook-client.ts).\<close>

record WebhookPayload =
  wp_videoId :: string
  wp_videoUrl :: string
  wp_downloadUrl :: string
  wp_description :: string
  wp_author :: string
  wp_publishedAt :: string
  wp_thumbnailUrl :: "string option"
  wp_duration :: "int option"
  wp_stats :: "VideoStats option"

record WebhookResult =
  success :: bool
  statusCode :: "int option"
  error :: "string option"
  attempts :: int

text \<open>\<open>interface Config\<close> (config-manager.ts).\<close>

record Config =
  cfg_webhookUrl :: string
  cfg_pollingInterval :: int
  cfg_authors :: "string list"
  cfg_maxRetries :: int

text \<open>
  JSON values as \<open>JSON.parse\<close> returns them. An object is the list of its properties in
  creation order. Numbers are restricted to integers.
\<close>

datatype json =
    JNull
  | JBool bool
  | JNum int
  | JStr string
  | JArr "json list"
  | JObj "(string \<times> json) list"

section \<open>The environment\<close>

text \<open>
  Everything outside the program is an input of the model. A call of a collaborator
  either returns or throws; the outcome of the \<open>k\<close>-th call of each kind is given by a
  function of \<open>k\<close>, so that a model run is determined by the environment and every
  behaviour of the collaborators is some environment.
\<close>

datatype js_error =
    Error string  \<comment> \<open>\<open>new Error(message)\<close>, thrown by the scraper\<close>
  | IOError  \<comment> \<open>rejection of \<open>fs.mkdir\<close>, \<open>fs.writeFile\<close> or \<open>fs.readFile\<close> (not ENOENT)\<close>
  | SyntaxError  \<comment> \<open>thrown by \<open>JSON.parse\<close>\<close>
  | TypeError  \<comment> \<open>property read on \<open>null\<close>, or no primitive value for an object\<close>
  | RangeError  \<comment> \<open>\<open>toISOString\<close> of the Invalid Date\<close>

datatype 'a call = Returns 'a | Throws js_error

text \<open>
  Outcome of one \<open>axios.post\<close>: a response with a 2xx status resolves, everything else
  rejects with an \<open>AxiosError\<close> carrying the response status, if any, and a message.
\<close>

datatype post_outcome = Responded int | Rejected "int option" string

record env =
  toISOString :: "int \<Rightarrow> string"  \<comment> \<open>\<open>Date.prototype.toISOString\<close> of a valid date\<close>
  dateParse :: "json \<Rightarrow> jsdate"  \<comment> \<open>\<open>new Date(v)\<close> of a JSON string, array or object\<close>
  sortOrder :: "VideoMetadata list \<Rightarrow> VideoMetadata list"
    \<comment> \<open>the order \<open>Array.prototype.sort\<close> leaves under an inconsistent comparator\<close>
  post :: "nat \<Rightarrow> post_outcome"  \<comment> \<open>the \<open>k\<close>-th \<open>axios.post\<close> to the webhook\<close>
  getLatestVideos :: "nat \<Rightarrow> VideoMetadata list call"  \<comment> \<open>the \<open>k\<close>-th \<open>scraper.getLatestVideos\<close>\<close>
  getVideoById :: "nat \<Rightarrow> VideoMetadata option call"  \<comment> \<open>the \<open>k\<close>-th \<open>scraper.getVideoById\<close>\<close>
  now :: "nat \<Rightarrow> int"  \<comment> \<open>the \<open>k\<close>-th \<open>new Date()\<close>\<close>
  random :: "nat \<Rightarrow> rat"  \<comment> \<open>the \<open>k\<close>-th \<open>Math.random()\<close>\<close>
  writeFile :: "nat \<Rightarrow> bool"  \<comment> \<open>whether the \<open>k\<close>-th write of the state file succeeds\<close>

text \<open>One line of the log, by its template in the source.\<close>

datatype log_msg =
    NoAuthorsConfigured  \<comment> \<open>\<open>No authors configured for monitoring\<close>\<close>
  | CheckingAuthors nat  \<comment> \<open>\<open>Checking n author(s) for new videos...\<close>\<close>
  | ErrorCheckingAuthor string js_error  \<comment> \<open>\<open>Error checking author a: message\<close>\<close>
  | PollCycleCompleted
  | CheckingAuthor string
  | NoNewVideos string
  | FoundNewVideos nat string
  | ProcessingVideo string string
  | WebhookSent string int
  | WebhookFailed string int "string option"
  | NoFailedWebhooks
  | RetryingFailed nat
  | ExceededMaxRetries string
  | CouldNotFetchMetadata string
  | RetrySuccessful string
  | RetryFailed string

datatype event =
    Log log_msg
  | Post int WebhookPayload  \<comment> \<open>one \<open>axios.post\<close> of the payload, with the loop index \<open>attempt\<close>\<close>
  | Sleep int  \<comment> \<open>\<open>sleepFn(ms)\<close> of the webhook client\<close>
  | Delay rat  \<comment> \<open>\<open>delay(ms)\<close> between authors\<close>
  | FetchLatest string int  \<comment> \<open>\<open>scraper.getLatestVideos(author, limit)\<close>\<close>
  | FetchById string  \<comment> \<open>\<open>scraper.getVideoById(videoId)\<close>\<close>
  | Write json  \<comment> \<open>the state file was replaced by this document\<close>
  | WriteFailed

text \<open>
  \<open>interface State\<close>: two JavaScript \<open>Map\<close>s. A \<open>Map\<close> iterates in insertion order and
  \<open>set\<close> on a present key replaces the value in place, which is \<open>AList.update\<close> on
  the list of entries.
\<close>

record State =
  processedVideos :: "(string \<times> ProcessedVideo) list"
  lastCheckTimes :: "(string \<times> int) list"

text \<open>The state file: absent, present but unreadable, not JSON, or a JSON document.\<close>

datatype backing = Missing | Unreadable | NotJSON | Parsed json

text \<open>
  The world a run acts on: the \<open>StateManager\<close>'s memory, the state file, the effects so
  far in order, and how many calls of each kind the environment has answered.
\<close>

record world =
  state :: State
  disk :: backing
  trace :: "event list"
  n_post :: nat
  n_latest :: nat
  n_byid :: nat
  n_now :: nat
  n_random :: nat
  n_write :: nat

definition emit :: "event \<Rightarrow> world \<Rightarrow> world" where
  "emit ev w = w\<lparr>trace := trace w @ [ev]\<rparr>"

section \<open>WebhookClient\<close>

text \<open>
  \<open>createPayload\<close>: \<open>video.publishedAt.toISOString()\<close> throws a \<open>RangeError\<close> on the
  Invalid Date.
\<close>

definition createPayload :: "env \<Rightarrow> VideoMetadata \<Rightarrow> js_error + WebhookPayload" where
  "createPayload e video =
     (case vm_publishedAt video of
        InvalidDate \<Rightarrow> Inl RangeError
      | Date t \<Rightarrow>
          Inr \<lparr>wp_videoId = vm_id video,
               wp_videoUrl = vm_url video,
               wp_downloadUrl = vm_downloadUrl video,
               wp_description = vm_description video,
               wp_author = vm_author video,
               wp_publishedAt = toISOString e t,
               wp_thumbnailUrl = vm_thumbnailUrl video,
               wp_duration = vm_duration video,
               wp_stats = vm_stats video\<rparr>)"

text \<open>
  The \<open>for\<close> loop of \<open>sendWithRetry\<close>, with its variables \<open>attempt\<close>, \<open>attempts\<close> (here
  \<open>made\<close>) and \<open>lastResult\<close> (\<open>None\<close> is \<open>null\<close>).
\<close>

function sendLoop ::
  "env \<Rightarrow> WebhookPayload \<Rightarrow> int \<Rightarrow> int \<Rightarrow> int \<Rightarrow> WebhookResult option \<Rightarrow> world
     \<Rightarrow> WebhookResult option \<times> world" where
  "sendLoop e payload totalAttempts attempt made lastResult w =
     (if attempt < totalAttempts then
        (let attempts' = made + 1;
             w1 = emit (Post attempt payload) (w\<lparr>n_post := Suc (n_post w)\<rparr>)
         in case post e (n_post w) of
              Responded status \<Rightarrow>
                (Some \<lparr>success = True, statusCode = Some status, error = None,
                       attempts = attempts'\<rparr>, w1)
            | Rejected status message \<Rightarrow>
                sendLoop e payload totalAttempts (attempt + 1) attempts'
                  (Some \<lparr>success = False, statusCode = status, error = Some message,
                         attempts = attempts'\<rparr>)
                  (if attempt < totalAttempts - 1
                   then emit (Sleep (2 ^ nat attempt * 1000)) w1 else w1))
      else (lastResult, w))"
  by pat_completeness auto
termination
  by (relation "measure (\<lambda>(e, payload, totalAttempts, attempt, rest). nat (totalAttempts - attempt))")
     auto

text \<open>\<open>sendWithRetry\<close>: the result is \<open>None\<close> when \<open>lastResult!\<close> is \<open>null\<close>.\<close>

definition sendWithRetry ::
  "env \<Rightarrow> WebhookPayload \<Rightarrow> int \<Rightarrow> world \<Rightarrow> WebhookResult option \<times> world" where
  "sendWithRetry e payload maxRetries w = sendLoop e payload (maxRetries + 1) 0 0 None w"

section \<open>JavaScript objects and JSON\<close>

text \<open>
  An array index is a canonical numeric string below \<open>2^32 - 1\<close>. The own properties of
  an object are enumerated with the array indices first, in ascending numeric order,
  and then the other string keys in creation order. \<open>Object.entries\<close>,
  \<open>Object.fromEntries\<close>, the spread \<open>{...value}\<close> and \<open>JSON.stringify\<close> all follow
  this order.
\<close>

definition digit :: "char \<Rightarrow> bool" where
  "digit c = (c \<in> set ''0123456789'')"

definition digitValue :: "char \<Rightarrow> nat" where
  "digitValue c = length (takeWhile (\<lambda>d. d \<noteq> c) ''0123456789'')"

definition decimal :: "string \<Rightarrow> int" where
  "decimal s = foldl (\<lambda>n c. 10 * n + int (digitValue c)) 0 s"

definition arrayIndex :: "string \<Rightarrow> int option" where
  "arrayIndex s =
     (if s \<noteq> [] \<and> list_all digit s \<and> (hd s \<noteq> CHR ''0'' \<or> s = ''0'')
         \<and> decimal s < 4294967295
      then Some (decimal s) else None)"

definition indexKey :: "string \<times> 'a \<Rightarrow> int" where
  "indexKey p = (case arrayIndex (fst p) of Some n \<Rightarrow> n | None \<Rightarrow> 0)"

definition ownProperties :: "(string \<times> 'a) list \<Rightarrow> (string \<times> 'a) list" where
  "ownProperties ps =
     sort_key indexKey (filter (\<lambda>p. arrayIndex (fst p) \<noteq> None) ps)
     @ filter (\<lambda>p. arrayIndex (fst p) = None) ps"

text \<open>
  Creating an object from key-value pairs in order: a repeated key replaces the value
  and keeps the position of the first.
\<close>

definition createObject :: "(string \<times> 'a) list \<Rightarrow> (string \<times> 'a) list" where
  "createObject ps = foldl (\<lambda>obj p. AList.update (fst p) (snd p) obj) [] ps"

text \<open>\<open>Object.fromEntries(entries)\<close>, by the properties it enumerates.\<close>

definition fromEntries :: "(string \<times> 'a) list \<Rightarrow> (string \<times> 'a) list" where
  "fromEntries ps = ownProperties (createObject ps)"

definition digitChar :: "nat \<Rightarrow> char" where
  "digitChar n = ''0123456789'' ! n"

fun decimalString :: "nat \<Rightarrow> string" where
  "decimalString n = (if n < 10 then [digitChar n] else decimalString (n div 10) @ [digitChar (n mod 10)])"

text \<open>
  \<open>Object.entries(v)\<close> for a JSON value other than \<open>null\<close>: the members of an object,
  the elements of an array and the characters of a string under their indices, nothing
  for a number or a boolean.
\<close>

fun entries :: "json \<Rightarrow> (string \<times> json) list" where
  "entries (JObj ps) = fromEntries ps"
| "entries (JArr xs) = map (\<lambda>i. (decimalString i, xs ! i)) [0..<length xs]"
| "entries (JStr s) = map (\<lambda>i. (decimalString i, JStr [s ! i])) [0..<length s]"
| "entries v = []"

text \<open>
  The property reads \<open>v.processedVideos\<close>, \<open>v.lastCheckTimes\<close> and \<open>v.processedAt\<close> on
  a JSON value other than \<open>null\<close>: only an object can have such a member, \<open>None\<close> is
  \<open>undefined\<close>.
\<close>

fun member :: "json \<Rightarrow> string \<Rightarrow> json option" where
  "member (JObj ps) k = map_of (createObject ps) k"
| "member v k = None"

text \<open>\<open>v || {}\<close>: the falsy values are replaced by the empty object.\<close>

fun orEmpty :: "json option \<Rightarrow> json" where
  "orEmpty None = JObj []"
| "orEmpty (Some JNull) = JObj []"
| "orEmpty (Some (JBool b)) = (if b then JBool b else JObj [])"
| "orEmpty (Some (JNum n)) = (if n = 0 then JObj [] else JNum n)"
| "orEmpty (Some (JStr s)) = (if s = [] then JObj [] else JStr s)"
| "orEmpty (Some v) = v"

section \<open>StateManager\<close>

definition DEFAULT_HISTORY_LIMIT :: int where
  "DEFAULT_HISTORY_LIMIT = 100"


definition isProcessed :: "State \<Rightarrow> string \<Rightarrow> bool" where
  "isProcessed st vid = (vid \<in> set (map fst (processedVideos st)))"

definition statusString :: "webhook_status \<Rightarrow> string" where
  "statusString s = (case s of pending \<Rightarrow> ''pending'' | sent \<Rightarrow> ''sent'' | failed \<Rightarrow> ''failed'')"

text \<open>
  The document \<open>save\<close> writes, as \<open>JSON.parse\<close> reads it back:
  \<open>{...value, processedAt: value.processedAt.toISOString()}\<close> for every video and
  \<open>value.toISOString()\<close> for every check time, collected with \<open>Object.fromEntries\<close>.
\<close>

definition videoJSON :: "env \<Rightarrow> ProcessedVideo \<Rightarrow> json" where
  "videoJSON e v =
     JObj [(''videoId'', JStr (videoId v)),
           (''author'', JStr (author v)),
           (''processedAt'', JStr (toISOString e (processedAt v))),
           (''webhookStatus'', JStr (statusString (webhookStatus v))),
           (''retryCount'', JNum (retryCount v))]"

definition stateJSON :: "env \<Rightarrow> State \<Rightarrow> json" where
  "stateJSON e st =
     JObj [(''processedVideos'',
            JObj (fromEntries (map (\<lambda>(key, v). (key, videoJSON e v)) (processedVideos st)))),
           (''lastCheckTimes'',
            JObj (fromEntries (map (\<lambda>(key, t). (key, JStr (toISOString e t))) (lastCheckTimes st))))]"

text \<open>
  \<open>save\<close>: the \<open>k\<close>-th write either replaces the file or rejects; a rejected write is
  taken to leave the file as it was.
\<close>

definition save :: "env \<Rightarrow> world \<Rightarrow> (js_error + unit) \<times> world" where
  "save e w =
     (if writeFile e (n_write w)
      then (Inr (), emit (Write (stateJSON e (state w)))
                      (w\<lparr>disk := Parsed (stateJSON e (state w)), n_write := Suc (n_write w)\<rparr>))
      else (Inl IOError, emit WriteFailed (w\<lparr>n_write := Suc (n_write w)\<rparr>)))"

definition setVideo :: "string \<Rightarrow> ProcessedVideo \<Rightarrow> world \<Rightarrow> world" where
  "setVideo key v w =
     w\<lparr>state := (state w)\<lparr>processedVideos := AList.update key v (processedVideos (state w))\<rparr>\<rparr>"

text \<open>\<open>markProcessed\<close>: \<open>video.processedAt\<close> is a \<open>Date\<close> by its type and is kept.\<close>

definition markProcessed :: "env \<Rightarrow> ProcessedVideo \<Rightarrow> world \<Rightarrow> (js_error + unit) \<times> world" where
  "markProcessed e video w = save e (setVideo (videoId video) video w)"

text \<open>
  \<open>Array.prototype.slice(0, end)\<close> for an integer \<open>end\<close>: a negative \<open>end\<close> counts from
  the end of the array.
\<close>

definition slice0 :: "'a list \<Rightarrow> int \<Rightarrow> 'a list" where
  "slice0 xs end = (if end < 0 then take (nat (int (length xs) + end)) xs else take (nat end) xs)"

text \<open>
  \<open>getHistory\<close>: \<open>Array.prototype.sort\<close> is stable, and so is \<open>sort_key\<close>; the comparator
  \<open>dateB.getTime() - dateA.getTime()\<close> orders by descending time value.
\<close>

definition getHistory :: "State \<Rightarrow> int \<Rightarrow> ProcessedVideo list" where
  "getHistory st limit =
     (let videos = sort_key (\<lambda>v. - processedAt v) (map snd (processedVideos st));
          effectiveLimit = min limit DEFAULT_HISTORY_LIMIT
      in slice0 videos effectiveLimit)"

definition getPendingRetries :: "State \<Rightarrow> ProcessedVideo list" where
  "getPendingRetries st = filter (\<lambda>video. webhookStatus video = failed) (map snd (processedVideos st))"

definition getLastCheckTime :: "State \<Rightarrow> string \<Rightarrow> int option" where
  "getLastCheckTime st a = map_of (lastCheckTimes st) a"

definition updateLastCheckTime :: "env \<Rightarrow> string \<Rightarrow> world \<Rightarrow> (js_error + unit) \<times> world" where
  "updateLastCheckTime e a w =
     save e (w\<lparr>state := (state w)\<lparr>lastCheckTimes :=
                  AList.update a (now e (n_now w)) (lastCheckTimes (state w))\<rparr>,
               n_now := Suc (n_now w)\<rparr>)"

definition updateWebhookStatus ::
  "env \<Rightarrow> string \<Rightarrow> webhook_status \<Rightarrow> int option \<Rightarrow> world \<Rightarrow> (js_error + unit) \<times> world" where
  "updateWebhookStatus e vid status newCount w =
     (case map_of (processedVideos (state w)) vid of
        None \<Rightarrow> (Inr (), w)
      | Some video \<Rightarrow>
          save e (setVideo vid
                    (video\<lparr>webhookStatus := status,
                           retryCount := (case newCount of None \<Rightarrow> retryCount video | Some c \<Rightarrow> c)\<rparr>) w))"

text \<open>
  \<open>load\<close>, as a function of the state file to the state it assigns to \<open>this.state\<close>
  and returns, or the error it throws. The cast of \<open>JSON.parse(data)\<close> to \<open>StateJSON\<close> is
  unchecked, so the loaded maps hold whatever the document holds: an object is a list
  of properties whose values are JSON values or dates.
\<close>

datatype jsval = J json | D jsdate

record Loaded =
  loadedVideos :: "(string \<times> (string \<times> jsval) list) list"
  loadedCheckTimes :: "(string \<times> jsdate) list"

definition timeClip :: "int \<Rightarrow> jsdate" where
  "timeClip t = (if \<bar>t\<bar> \<le> 8640000000000000 then Date t else InvalidDate)"

text \<open>
  Whether converting a JSON value to a primitive throws. An object parsed from JSON has
  no callable own member, and \<open>Object.prototype.valueOf\<close> returns the object itself, so
  the conversion ends in \<open>Object.prototype.toString\<close> unless an own member named
  \<open>toString\<close> hides it; then nothing callable is left and a \<open>TypeError\<close> is thrown. An
  array is converted by \<open>join\<close>, which converts every element other than \<open>null\<close>.
\<close>

fun toPrimitiveThrows :: "json \<Rightarrow> bool" where
  "toPrimitiveThrows (JObj ps) = (''toString'' \<in> set (map fst ps))"
| "toPrimitiveThrows (JArr xs) = list_ex toPrimitiveThrows xs"
| "toPrimitiveThrows v = False"

text \<open>
  \<open>new Date(v)\<close> for \<open>undefined\<close> or a JSON value. For a string, an array or an object
  the result is \<open>Date.parse\<close> of its primitive, which is the parameter \<open>parse\<close>, unless
  the conversion to a primitive throws.
\<close>

fun newDate :: "(json \<Rightarrow> jsdate) \<Rightarrow> json option \<Rightarrow> js_error + jsdate" where
  "newDate parse None = Inr InvalidDate"
| "newDate parse (Some JNull) = Inr (Date 0)"
| "newDate parse (Some (JBool b)) = Inr (Date (if b then 1 else 0))"
| "newDate parse (Some (JNum n)) = Inr (timeClip n)"
| "newDate parse (Some v) = (if toPrimitiveThrows v then Inl TypeError else Inr (parse v))"

text \<open>
  One entry of \<open>processedVideos\<close>: \<open>{...value, processedAt: new Date(value.processedAt)}\<close>.
  Reading \<open>value.processedAt\<close> throws when \<open>value\<close> is \<open>null\<close>.
\<close>

definition loadVideo :: "(json \<Rightarrow> jsdate) \<Rightarrow> json \<Rightarrow> js_error + (string \<times> jsval) list" where
  "loadVideo parse v =
     (if v = JNull then Inl TypeError
      else case newDate parse (member v ''processedAt'') of
             Inl err \<Rightarrow> Inl err
           | Inr d \<Rightarrow>
               Inr (AList.update ''processedAt'' (D d) (map (\<lambda>(k, x). (k, J x)) (entries v))))"

fun loadVideos ::
  "(json \<Rightarrow> jsdate) \<Rightarrow> (string \<times> json) list \<Rightarrow> js_error + (string \<times> (string \<times> jsval) list) list" where
  "loadVideos parse [] = Inr []"
| "loadVideos parse ((key, v) # rest) =
     (case loadVideo parse v of
        Inl err \<Rightarrow> Inl err
      | Inr obj \<Rightarrow> (case loadVideos parse rest of
                     Inl err \<Rightarrow> Inl err
                   | Inr objs \<Rightarrow> Inr ((key, obj) # objs)))"

text \<open>The entries of \<open>lastCheckTimes\<close>: \<open>new Date(value)\<close> for each of them, in order.\<close>

fun loadTimes ::
  "(json \<Rightarrow> jsdate) \<Rightarrow> (string \<times> json) list \<Rightarrow> js_error + (string \<times> jsdate) list" where
  "loadTimes parse [] = Inr []"
| "loadTimes parse ((key, v) # rest) =
     (case newDate parse (Some v) of
        Inl err \<Rightarrow> Inl err
      | Inr d \<Rightarrow> (case loadTimes parse rest of
                   Inl err \<Rightarrow> Inl err
                 | Inr ds \<Rightarrow> Inr ((key, d) # ds)))"

definition load :: "(json \<Rightarrow> jsdate) \<Rightarrow> backing \<Rightarrow> js_error + Loaded" where
  "load parse file =
     (case file of
        Missing \<Rightarrow> Inr \<lparr>loadedVideos = [], loadedCheckTimes = []\<rparr>
      | Unreadable \<Rightarrow> Inl IOError
      | NotJSON \<Rightarrow> Inl SyntaxError
      | Parsed parsed \<Rightarrow>
          (if parsed = JNull then Inl TypeError
           else case loadVideos parse (entries (orEmpty (member parsed ''processedVideos''))) of
                  Inl err \<Rightarrow> Inl err
                | Inr videos \<Rightarrow>
                    (case loadTimes parse (entries (orEmpty (member parsed ''lastCheckTimes''))) of
                       Inl err \<Rightarrow> Inl err
                     | Inr checkTimes \<Rightarrow> Inr \<lparr>loadedVideos = videos, loadedCheckTimes = checkTimes\<rparr>)))"

text \<open>
  Reading a loaded state at its declared type \<open>State\<close>: defined when every video has
  the fields of \<open>ProcessedVideo\<close> and every date is valid.
\<close>

definition asStatus :: "string \<Rightarrow> webhook_status option" where
  "asStatus s =
     (if s = ''pending'' then Some pending
      else if s = ''sent'' then Some sent
      else if s = ''failed'' then Some failed else None)"

definition asProcessedVideo :: "(string \<times> jsval) list \<Rightarrow> ProcessedVideo option" where
  "asProcessedVideo obj =
     (case (map_of obj ''videoId'', map_of obj ''author'', map_of obj ''processedAt'',
            map_of obj ''webhookStatus'', map_of obj ''retryCount'') of
        (Some (J (JStr i)), Some (J (JStr a)), Some (D (Date t)), Some (J (JStr s)),
         Some (J (JNum c))) \<Rightarrow>
          map_option (\<lambda>status. \<lparr>videoId = i, author = a, processedAt = t,
                                  webhookStatus = status, retryCount = c\<rparr>) (asStatus s)
      | _ \<Rightarrow> None)"

definition asDate :: "jsdate \<Rightarrow> int option" where
  "asDate d = (case d of Date t \<Rightarrow> Some t | InvalidDate \<Rightarrow> None)"

definition asEntries :: "('b \<Rightarrow> 'c option) \<Rightarrow> (string \<times> 'b) list \<Rightarrow> (string \<times> 'c) list option" where
  "asEntries f kvs = those (map (\<lambda>(k, v). map_option (Pair k) (f v)) kvs)"

definition asState :: "Loaded \<Rightarrow> State option" where
  "asState l =
     (case (asEntries asProcessedVideo (loadedVideos l), asEntries asDate (loadedCheckTimes l)) of
        (Some vs, Some ts) \<Rightarrow> Some \<lparr>processedVideos = vs, lastCheckTimes = ts\<rparr>
      | _ \<Rightarrow> None)"

text \<open>The object \<open>load\<close> builds from the entry \<open>save\<close> wrote for a video.\<close>

definition loadedVideo :: "env \<Rightarrow> (json \<Rightarrow> jsdate) \<Rightarrow> ProcessedVideo \<Rightarrow> (string \<times> jsval) list" where
  "loadedVideo e parse v =
     [(''videoId'', J (JStr (videoId v))),
      (''author'', J (JStr (author v))),
      (''processedAt'', D (parse (JStr (toISOString e (processedAt v))))),
      (''webhookStatus'', J (JStr (statusString (webhookStatus v)))),
      (''retryCount'', J (JNum (retryCount v)))]"

text \<open>
  The mutating operations a client of the store calls during its lifetime (\<open>load\<close> and
  \<open>clear\<close> start a new one). A call may throw; the store stays in use afterwards.
\<close>

datatype store_op =
    MarkProcessed ProcessedVideo
  | UpdateWebhookStatus string webhook_status "int option"
  | UpdateLastCheckTime string
  | Save

fun applyOp :: "env \<Rightarrow> store_op \<Rightarrow> world \<Rightarrow> (js_error + unit) \<times> world" where
  "applyOp e (MarkProcessed video) w = markProcessed e video w"
| "applyOp e (UpdateWebhookStatus vid status newCount) w =
     updateWebhookStatus e vid status newCount w"
| "applyOp e (UpdateLastCheckTime a) w = updateLastCheckTime e a w"
| "applyOp e Save w = save e w"

fun applyOps :: "env \<Rightarrow> store_op list \<Rightarrow> world \<Rightarrow> world" where
  "applyOps e [] w = w"
| "applyOps e (op # ops) w = applyOps e ops (snd (applyOp e op w))"

section \<open>PollingScheduler\<close>

text \<open>
  An awaited call that rejects makes the caller reject with the same error, in the
  world the call left behind.
\<close>

definition andThen ::
  "(js_error + 'a) \<times> world \<Rightarrow> ('a \<Rightarrow> world \<Rightarrow> (js_error + 'b) \<times> world)
     \<Rightarrow> (js_error + 'b) \<times> world" where
  "andThen r f = (case r of (Inl err, w) \<Rightarrow> (Inl err, w) | (Inr x, w) \<Rightarrow> f x w)"

definition logger :: "log_msg \<Rightarrow> world \<Rightarrow> world" where
  "logger m w = emit (Log m) w"



text \<open>
  \<open>newVideos.sort((a, b) => a.publishedAt.getTime() - b.publishedAt.getTime())\<close>. On
  valid dates the comparator orders by ascending time value, and the sort is stable. The
  time value of the Invalid Date is \<open>NaN\<close>, and a comparator result \<open>NaN\<close> counts as
  \<open>0\<close>: an invalid date compares equal to every date. If all the valid dates present
  are equal, everything compares equal and the stable sort leaves the array as it is;
  otherwise the comparator is not consistent and the resulting order is up to the
  implementation, here some rearrangement \<open>sortOrder\<close> of the same elements.
\<close>

definition validDate :: "jsdate \<Rightarrow> bool" where
  "validDate d = (d \<noteq> InvalidDate)"








text \<open>
  \<open>retryFailedWebhooks\<close>. \<open>getPendingRetries\<close> returns the objects stored in the map,
  not copies, and the loop reads \<open>video.retryCount\<close> from the object as it is when its
  turn comes, after the updates of the records before it. An object is identified here
  by its position among the entries of the map, which no operation of the sweep changes:
  \<open>pendingRefs\<close> are the positions of the objects \<open>getPendingRetries\<close> returns, and
  \<open>deref\<close> reads the object at a position. \<open>retryVideo\<close> is the body of the loop for
  the object as read; \<open>continue\<close> is a normal return of it.
\<close>

definition pendingRefs :: "State \<Rightarrow> nat list" where
  "pendingRefs st =
     filter (\<lambda>i. webhookStatus (snd (processedVideos st ! i)) = failed)
       [0..<length (processedVideos st)]"

definition deref :: "world \<Rightarrow> nat \<Rightarrow> ProcessedVideo" where
  "deref w i = snd (processedVideos (state w) ! i)"

definition retryVideo :: "env \<Rightarrow> Config \<Rightarrow> ProcessedVideo \<Rightarrow> world \<Rightarrow> (js_error + unit) \<times> world" where
  "retryVideo e config video w =
     (if retryCount video \<ge> cfg_maxRetries config then
        (Inr (), logger (ExceededMaxRetries (videoId video)) w)
      else
        (let w1 = emit (FetchById (videoId video)) (w\<lparr>n_byid := Suc (n_byid w)\<rparr>)
         in case getVideoById e (n_byid w) of
              Throws err \<Rightarrow> (Inl err, w1)
            | Returns None \<Rightarrow> (Inr (), logger (CouldNotFetchMetadata (videoId video)) w1)
            | Returns (Some videoMetadata) \<Rightarrow>
                (case createPayload e videoMetadata of
                   Inl err \<Rightarrow> (Inl err, w1)
                 | Inr payload \<Rightarrow>
                     (case sendWithRetry e payload
                             (cfg_maxRetries config - retryCount video) w1 of
                        (None, w2) \<Rightarrow> (Inl TypeError, w2)
                      | (Some result, w2) \<Rightarrow>
                          (let newRetryCount = retryCount video + attempts result
                           in if success result then
                                andThen (updateWebhookStatus e (videoId video) sent
                                           (Some newRetryCount) w2)
                                  (\<lambda>_ w3. (Inr (), logger (RetrySuccessful (videoId video)) w3))
                              else
                                andThen (updateWebhookStatus e (videoId video) failed
                                           (Some newRetryCount) w2)
                                  (\<lambda>_ w3. (Inr (), logger (RetryFailed (videoId video)) w3)))))))"

fun retryLoop :: "env \<Rightarrow> Config \<Rightarrow> nat list \<Rightarrow> world \<Rightarrow> (js_error + unit) \<times> world" where
  "retryLoop e config [] w = (Inr (), w)"
| "retryLoop e config (i # rest) w =
     andThen (retryVideo e config (deref w i) w) (\<lambda>_ w'. retryLoop e config rest w')"

definition retryFailedWebhooks :: "env \<Rightarrow> Config \<Rightarrow> world \<Rightarrow> (js_error + unit) \<times> world" where
  "retryFailedWebhooks e config w =
     (let pendingRetries = getPendingRetries (state w)
      in if length pendingRetries = 0 then (Inr (), logger NoFailedWebhooks w)
         else retryLoop e config (pendingRefs (state w))
                (logger (RetryingFailed (length pendingRetries)) w))"

text \<open>
  The payloads of the first attempts in a trace, in order: one for every call of
  \<open>sendWithRetry\<close> that issued a post.
\<close>

fun deliveries :: "event list \<Rightarrow> WebhookPayload list" where
  "deliveries [] = []"
| "deliveries (Post k p # es) = (if k = 0 then p # deliveries es else deliveries es)"
| "deliveries (ev # es) = deliveries es"

text \<open>The authors fetched in a trace, in order.\<close>

fun fetches :: "event list \<Rightarrow> string list" where
  "fetches [] = []"
| "fetches (FetchLatest a n # es) = a # fetches es"
| "fetches (ev # es) = fetches es"


text \<open>
  One turn of the loop of \<open>retryFailedWebhooks\<close> that ended normally, for the failed
  record \<open>v\<close>, from the world \<open>w\<close> to the world \<open>w'\<close>: the record was skipped with a
  log because its budget is exhausted; or it was skipped with a log because the
  re-fetch returned nothing; or the payload of the re-fetched metadata was sent with
  the remaining budget \<open>maxRetries - retryCount\<close>, at least once, and then the record
  was stored with the new status and with the attempts made added to its count, the
  state file was rewritten and the outcome logged.
\<close>

abbreviation retried :: "env \<Rightarrow> Config \<Rightarrow> ProcessedVideo \<Rightarrow> world \<Rightarrow> world \<Rightarrow> bool" where
  "retried e config v w w' \<equiv>
     (cfg_maxRetries config \<le> retryCount v
        \<and> w' = logger (ExceededMaxRetries (videoId v)) w)
     \<or> (retryCount v < cfg_maxRetries config
        \<and> getVideoById e (n_byid w) = Returns None
        \<and> w' = logger (CouldNotFetchMetadata (videoId v))
                 (emit (FetchById (videoId v)) (w\<lparr>n_byid := Suc (n_byid w)\<rparr>)))
     \<or> (retryCount v < cfg_maxRetries config
        \<and> (\<exists>videoMetadata payload result wS st'.
              getVideoById e (n_byid w) = Returns (Some videoMetadata)
              \<and> createPayload e videoMetadata = Inr payload
              \<and> sendWithRetry e payload (cfg_maxRetries config - retryCount v)
                    (emit (FetchById (videoId v)) (w\<lparr>n_byid := Suc (n_byid w)\<rparr>))
                  = (Some result, wS)
              \<and> 1 \<le> attempts result
              \<and> attempts result \<le> cfg_maxRetries config - retryCount v + 1
              \<and> n_post w < n_post wS
              \<and> st' = (state w)\<lparr>processedVideos :=
                         AList.update (videoId v)
                           (v\<lparr>webhookStatus := (if success result then sent else failed),
                              retryCount := retryCount v + attempts result\<rparr>)
                           (processedVideos (state w))\<rparr>
              \<and> writeFile e (n_write w)
              \<and> w' = wS\<lparr>state := st', disk := Parsed (stateJSON e st'),
                         trace := trace wS
                                  @ [Write (stateJSON e st'),
                                     Log (if success result then RetrySuccessful (videoId v)
                                          else RetryFailed (videoId v))],
                         n_write := Suc (n_write w)\<rparr>))"

section \<open>Concrete inputs\<close>

text \<open>A small environment, world and video on which the theorems below are instantiated.\<close>

definition env0 :: env where
  "env0 =
     \<lparr>toISOString = (\<lambda>t. if t = 1000 then ''1970-01-01T00:00:01.000Z''
                          else if t = 2000 then ''1970-01-01T00:00:02.000Z''
                          else ''1970-01-01T00:00:00.000Z''),
      dateParse = (\<lambda>v. if v = JStr ''1970-01-01T00:00:01.000Z'' then Date 1000
                        else if v = JStr ''1970-01-01T00:00:02.000Z'' then Date 2000
                        else if v = JStr ''1970-01-01T00:00:00.000Z'' then Date 0
                        else InvalidDate),
      sortOrder = (\<lambda>videos. videos),
      post = (\<lambda>k. Responded 200),
      getLatestVideos = (\<lambda>k. Returns []),
      getVideoById = (\<lambda>k. Returns None),
      now = (\<lambda>k. 1000),
      random = (\<lambda>k. 0),
      writeFile = (\<lambda>k. True)\<rparr>"

definition world0 :: world where
  "world0 =
     \<lparr>state = \<lparr>processedVideos = [], lastCheckTimes = []\<rparr>, disk = Missing, trace = [],
      n_post = 0, n_latest = 0, n_byid = 0, n_now = 0, n_random = 0, n_write = 0\<rparr>"


definition video0 :: "string \<Rightarrow> int \<Rightarrow> VideoMetadata" where
  "video0 i t =
     \<lparr>vm_id = i, vm_url = ''u'', vm_downloadUrl = ''d'', vm_description = ''x'',
      vm_author = ''a'', vm_publishedAt = Date t, vm_thumbnailUrl = None, vm_duration = None,
      vm_stats = None\<rparr>"

definition payload0 :: "string \<Rightarrow> string \<Rightarrow> WebhookPayload" where
  "payload0 i t =
     \<lparr>wp_videoId = i, wp_videoUrl = ''u'', wp_downloadUrl = ''d'', wp_description = ''x'',
      wp_author = ''a'', wp_publishedAt = t, wp_thumbnailUrl = None, wp_duration = None,
      wp_stats = None\<rparr>"

definition pv0 :: "string \<Rightarrow> int \<Rightarrow> ProcessedVideo" where
  "pv0 i t =
     \<lparr>videoId = i, author = ''a'', processedAt = t, webhookStatus = sent, retryCount = 0\<rparr>"

definition twoVideos :: State where
  "twoVideos =
     \<lparr>processedVideos = [(''2'', pv0 ''2'' 1000), (''1'', pv0 ''1'' 1000)],
      lastCheckTimes = [(''a'', 1000)]\<rparr>"

definition otherVideos :: State where
  "otherVideos =
     \<lparr>processedVideos = [(''v2'', pv0 ''v2'' 2000), (''v1'', pv0 ''v1'' 1000)],
      lastCheckTimes = [(''a'', 2000)]\<rparr>"





definition twoFailed :: world where
  "twoFailed =
     world0\<lparr>state :=
       \<lparr>processedVideos =
          [(''f1'', (pv0 ''f1'' 1000)\<lparr>webhookStatus := failed\<rparr>),
           (''f2'', (pv0 ''f2'' 2000)\<lparr>webhookStatus := failed\<rparr>),
           (''s'', pv0 ''s'' 1000)],
        lastCheckTimes = []\<rparr>\<rparr>"

definition envRateLimited :: env where
  "envRateLimited =
     env0\<lparr>getVideoById :=
            \<lambda>k. Throws (Error ''Rate limited by TikTok API. Please try again later.'')\<rparr>"

definition envRefetch :: env where
  "envRefetch = env0\<lparr>getVideoById := \<lambda>k. Returns (Some (video0 ''f1'' 1000))\<rparr>"


section \<open>Properties of the webhook client\<close>

declare sendLoop.simps [simp del]

lemma n_post_emit [simp]: "n_post (emit ev w) = n_post w"
  by (simp add: emit_def)

lemma sendLoop_posts_le:
  "n_post (snd (sendLoop e p T a c lr w)) \<le> n_post w + nat (T - a)"
proof (induction e p T a c lr w rule: sendLoop.induct)
  case (1 e p T a c lr w)
  show ?case
  proof (cases "a < T")
    case False
    then show ?thesis by (subst sendLoop.simps) simp
  next
    case True
    show ?thesis
    proof (cases "post e (n_post w)")
      case (Responded s)
      with True show ?thesis by (subst sendLoop.simps) (simp add: Let_def)
    next
      case (Rejected s m)
      from "1.IH"[OF True refl refl Rejected]
      show ?thesis using True Rejected
        by (subst sendLoop.simps) (auto simp add: Let_def split: if_splits)
    qed
  qed
qed

lemma sendLoop_first_success:
  "\<forall>i<k. \<exists>s m. post e (n_post w + i) = Rejected s m \<Longrightarrow>
   post e (n_post w + k) = Responded s \<Longrightarrow> int k < T - a \<Longrightarrow>
   \<exists>w'. sendLoop e p T a c lr w =
          (Some \<lparr>success = True, statusCode = Some s, error = None, attempts = c + int k + 1\<rparr>, w')
        \<and> n_post w' = n_post w + k + 1"
proof (induction k arbitrary: a c lr w)
  case 0
  then show ?case by (subst sendLoop.simps) (simp add: Let_def)
next
  case (Suc k)
  have "\<exists>s m. post e (n_post w + 0) = Rejected s m"
    using Suc.prems(1) by blast
  then obtain s0 m0 where r0: "post e (n_post w) = Rejected s0 m0"
    by auto
  define w2 where "w2 = (if a < T - 1
     then emit (Sleep (2 ^ nat a * 1000)) (emit (Post a p) (w\<lparr>n_post := Suc (n_post w)\<rparr>))
     else emit (Post a p) (w\<lparr>n_post := Suc (n_post w)\<rparr>))"
  define lr0 where
    "lr0 = Some \<lparr>success = False, statusCode = s0, error = Some m0, attempts = c + 1\<rparr>"
  have np: "n_post w2 = Suc (n_post w)" by (simp add: w2_def)
  have a: "\<forall>i<k. \<exists>s m. post e (n_post w2 + i) = Rejected s m"
  proof (intro allI impI)
    fix i assume "i < k"
    then have "\<exists>s m. post e (n_post w + Suc i) = Rejected s m"
      using Suc.prems(1) by blast
    then show "\<exists>s m. post e (n_post w2 + i) = Rejected s m" by (simp add: np)
  qed
  have b: "post e (n_post w2 + k) = Responded s"
    using Suc.prems(2) by (simp add: np)
  have c: "int k < T - (a + 1)" using Suc.prems(3) by simp
  from Suc.IH[OF a b c, of "c + 1" lr0]
  obtain w' where w': "sendLoop e p T (a + 1) (c + 1) lr0 w2 =
        (Some \<lparr>success = True, statusCode = Some s, error = None,
               attempts = c + 1 + int k + 1\<rparr>, w')"
     and n': "n_post w' = n_post w2 + k + 1" by blast
  have lt: "a < T" using Suc.prems(3) by simp
  have step: "sendLoop e p T a c lr w = sendLoop e p T (a + 1) (c + 1) lr0 w2"
    by (subst sendLoop.simps) (simp add: lt r0 Let_def w2_def lr0_def)
  show ?case unfolding step using w' n' np by simp
qed

lemma sendLoop_all_fail:
  "\<forall>i\<le>n. \<exists>s m. post e (n_post w + i) = Rejected s m \<Longrightarrow>
   post e (n_post w + n) = Rejected s m \<Longrightarrow> T - a = int (Suc n) \<Longrightarrow>
   \<exists>w'. sendLoop e p T a c lr w =
          (Some \<lparr>success = False, statusCode = s, error = Some m,
                 attempts = c + int (Suc n)\<rparr>, w')
        \<and> n_post w' = n_post w + Suc n"
proof (induction n arbitrary: a c lr w)
  case 0
  have stop: "\<And>c' lr' w'. sendLoop e p T (a + 1) c' lr' w' = (lr', w')"
    using 0(3) by (subst sendLoop.simps) simp
  have lt: "a < T" using 0(3) by simp
  have r0: "post e (n_post w) = Rejected s m" using 0(2) by simp
  show ?case
    by (subst sendLoop.simps) (simp add: lt r0 stop Let_def)
next
  case (Suc n)
  have "\<exists>s m. post e (n_post w + 0) = Rejected s m"
    using Suc.prems(1) by blast
  then obtain s0 m0 where r0: "post e (n_post w) = Rejected s0 m0"
    by auto
  define w2 where "w2 = (if a < T - 1
     then emit (Sleep (2 ^ nat a * 1000)) (emit (Post a p) (w\<lparr>n_post := Suc (n_post w)\<rparr>))
     else emit (Post a p) (w\<lparr>n_post := Suc (n_post w)\<rparr>))"
  define lr0 where
    "lr0 = Some \<lparr>success = False, statusCode = s0, error = Some m0, attempts = c + 1\<rparr>"
  have np: "n_post w2 = Suc (n_post w)" by (simp add: w2_def)
  have a: "\<forall>i\<le>n. \<exists>s m. post e (n_post w2 + i) = Rejected s m"
  proof (intro allI impI)
    fix i assume "i \<le> n"
    then have "\<exists>s m. post e (n_post w + Suc i) = Rejected s m"
      using Suc.prems(1) by blast
    then show "\<exists>s m. post e (n_post w2 + i) = Rejected s m" by (simp add: np)
  qed
  have b: "post e (n_post w2 + n) = Rejected s m"
    using Suc.prems(2) by (simp add: np)
  have c: "T - (a + 1) = int (Suc n)" using Suc.prems(3) by simp
  from Suc.IH[OF a b c, of "c + 1" lr0]
  obtain w' where w': "sendLoop e p T (a + 1) (c + 1) lr0 w2 =
        (Some \<lparr>success = False, statusCode = s, error = Some m,
               attempts = c + 1 + int (Suc n)\<rparr>, w')"
     and n': "n_post w' = n_post w2 + Suc n" by blast
  have lt: "a < T" using Suc.prems(3) by simp
  have step: "sendLoop e p T a c lr w = sendLoop e p T (a + 1) (c + 1) lr0 w2"
    by (subst sendLoop.simps) (simp add: lt r0 Let_def w2_def lr0_def)
  show ?case unfolding step using w' n' np by simp
qed

lemma sendWithRetry_posts_le:
  "n_post (snd (sendWithRetry e payload maxRetries w)) \<le> n_post w + nat (maxRetries + 1)"
  unfolding sendWithRetry_def using sendLoop_posts_le [of e payload "maxRetries + 1" 0 0 None w]
  by simp

text \<open>
  C1. For a non-negative \<open>maxRetries\<close>, \<open>sendWithRetry\<close> issues at most
  \<open>maxRetries + 1\<close> posts. If the \<open>k\<close>-th post (counting from 0, \<open>k \<le> maxRetries\<close>) is
  the first that succeeds, it returns at once with \<open>success = true\<close> and
  \<open>attempts = k + 1\<close>, having issued \<open>k + 1\<close> posts. If all \<open>maxRetries + 1\<close> posts fail,
  it returns the outcome of the last one with \<open>attempts = maxRetries + 1\<close>.
\<close>

theorem sendWithRetry_attempts:
  assumes "0 \<le> maxRetries"
  shows
    "n_post (snd (sendWithRetry e payload maxRetries w)) \<le> n_post w + nat maxRetries + 1
     \<and> (\<forall>k status.
          k \<le> nat maxRetries \<longrightarrow>
          (\<forall>i<k. \<exists>s m. post e (n_post w + i) = Rejected s m) \<longrightarrow>
          post e (n_post w + k) = Responded status \<longrightarrow>
          (\<exists>w'. sendWithRetry e payload maxRetries w =
                  (Some \<lparr>success = True, statusCode = Some status, error = None,
                         attempts = int k + 1\<rparr>, w')
                \<and> n_post w' = n_post w + k + 1))
     \<and> (\<forall>status message.
          (\<forall>i\<le>nat maxRetries. \<exists>s m. post e (n_post w + i) = Rejected s m) \<longrightarrow>
          post e (n_post w + nat maxRetries) = Rejected status message \<longrightarrow>
          (\<exists>w'. sendWithRetry e payload maxRetries w =
                  (Some \<lparr>success = False, statusCode = status, error = Some message,
                         attempts = maxRetries + 1\<rparr>, w')
                \<and> n_post w' = n_post w + nat maxRetries + 1))"
proof (intro conjI allI impI)
  show "n_post (snd (sendWithRetry e payload maxRetries w)) \<le> n_post w + nat maxRetries + 1"
    using sendWithRetry_posts_le [of e payload maxRetries w] assms by (simp add: nat_add_distrib)
next
  fix k status
  assume k: "k \<le> nat maxRetries"
    and rej: "\<forall>i<k. \<exists>s m. post e (n_post w + i) = Rejected s m"
    and ok: "post e (n_post w + k) = Responded status"
  have "int k < maxRetries + 1 - 0" using k assms by simp
  from sendLoop_first_success [OF rej ok this, of payload 0 None]
  show "\<exists>w'. sendWithRetry e payload maxRetries w =
          (Some \<lparr>success = True, statusCode = Some status, error = None,
                 attempts = int k + 1\<rparr>, w')
        \<and> n_post w' = n_post w + k + 1"
    by (simp add: sendWithRetry_def)
next
  fix status message
  assume rej: "\<forall>i\<le>nat maxRetries. \<exists>s m. post e (n_post w + i) = Rejected s m"
    and last: "post e (n_post w + nat maxRetries) = Rejected status message"
  have "maxRetries + 1 - 0 = int (Suc (nat maxRetries))" using assms by simp
  from sendLoop_all_fail [OF rej last this, of payload 0 None]
  obtain w' where "sendLoop e payload (maxRetries + 1) 0 0 None w =
          (Some \<lparr>success = False, statusCode = status, error = Some message,
                 attempts = 0 + int (Suc (nat maxRetries))\<rparr>, w')"
    and "n_post w' = n_post w + Suc (nat maxRetries)" by blast
  moreover have "0 + int (Suc (nat maxRetries)) = maxRetries + 1" using assms by simp
  ultimately have "sendWithRetry e payload maxRetries w =
          (Some \<lparr>success = False, statusCode = status, error = Some message,
                 attempts = maxRetries + 1\<rparr>, w')
        \<and> n_post w' = n_post w + nat maxRetries + 1"
    by (simp add: sendWithRetry_def)
  then show "\<exists>w'. sendWithRetry e payload maxRetries w =
          (Some \<lparr>success = False, statusCode = status, error = Some message,
                 attempts = maxRetries + 1\<rparr>, w')
        \<and> n_post w' = n_post w + nat maxRetries + 1" ..
qed

theorem sendWithRetry_attempts_witness:
  "(0::int) \<le> 3
   \<and> (\<exists>w'. sendWithRetry
              (env0\<lparr>post := \<lambda>k. if k = 2 then Responded 200 else Rejected (Some 500) ''no''\<rparr>)
              (payload0 ''v1'' ''1970-01-01T00:00:01.000Z'') 3 world0 =
              (Some \<lparr>success = True, statusCode = Some 200, error = None, attempts = 3\<rparr>, w')
            \<and> n_post w' = 3)
   \<and> (\<exists>w'. sendWithRetry (env0\<lparr>post := \<lambda>k. Rejected None ''timeout''\<rparr>)
              (payload0 ''v1'' ''1970-01-01T00:00:01.000Z'') 3 world0 =
              (Some \<lparr>success = False, statusCode = None, error = Some ''timeout'',
                     attempts = 4\<rparr>, w')
            \<and> n_post w' = 4)"
proof -
  have h: "(0::int) \<le> 3" by simp
  note t1 = sendWithRetry_attempts [OF h,
      of "env0\<lparr>post := \<lambda>k. if k = 2 then Responded 200 else Rejected (Some 500) ''no''\<rparr>"
         "payload0 ''v1'' ''1970-01-01T00:00:01.000Z''" world0, THEN conjunct2, THEN conjunct1,
      rule_format, of 2 200]
  note t2 = sendWithRetry_attempts [OF h,
      of "env0\<lparr>post := \<lambda>k. Rejected None ''timeout''\<rparr>"
         "payload0 ''v1'' ''1970-01-01T00:00:01.000Z''" world0, THEN conjunct2, THEN conjunct2,
      rule_format, of None "''timeout''"]
  have n0: "n_post world0 = 0" by (simp add: world0_def)
  from t1 have a: "\<exists>w'. sendWithRetry
              (env0\<lparr>post := \<lambda>k. if k = 2 then Responded 200 else Rejected (Some 500) ''no''\<rparr>)
              (payload0 ''v1'' ''1970-01-01T00:00:01.000Z'') 3 world0 =
              (Some \<lparr>success = True, statusCode = Some 200, error = None, attempts = 3\<rparr>, w')
            \<and> n_post w' = 3"
    by (simp add: n0 numeral_3_eq_3)
  from t2 have b: "\<exists>w'. sendWithRetry (env0\<lparr>post := \<lambda>k. Rejected None ''timeout''\<rparr>)
              (payload0 ''v1'' ''1970-01-01T00:00:01.000Z'') 3 world0 =
              (Some \<lparr>success = False, statusCode = None, error = Some ''timeout'',
                     attempts = 4\<rparr>, w')
            \<and> n_post w' = 4"
    by (simp add: n0 eval_nat_numeral)
  from h a b show ?thesis by blast
qed

section \<open>Properties of the state store\<close>

lemma state_emit [simp]: "state (emit ev w) = state w"
  by (simp add: emit_def)

lemma state_save [simp]: "state (snd (save e w)) = state w"
  by (simp add: save_def)

lemma videos_markProcessed:
  "processedVideos (state (snd (markProcessed e video w))) =
     AList.update (videoId video) video (processedVideos (state w))"
  by (simp add: markProcessed_def setVideo_def)

lemma lastCheckTimes_markProcessed:
  "lastCheckTimes (state (snd (markProcessed e video w))) = lastCheckTimes (state w)"
  by (simp add: markProcessed_def setVideo_def)

lemma keys_applyOp:
  "fst ` set (processedVideos (state w)) \<subseteq> fst ` set (processedVideos (state (snd (applyOp e op w))))"
proof (cases op)
  case (MarkProcessed video)
  then show ?thesis by (auto simp add: videos_markProcessed dom_update)
next
  case (UpdateWebhookStatus vid status newCount)
  then show ?thesis
    by (auto simp add: updateWebhookStatus_def setVideo_def dom_update split: option.splits)
next
  case (UpdateLastCheckTime a)
  then show ?thesis by (simp add: updateLastCheckTime_def)
next
  case Save
  then show ?thesis by simp
qed

lemma keys_applyOps:
  "fst ` set (processedVideos (state w)) \<subseteq> fst ` set (processedVideos (state (applyOps e ops w)))"
proof (induction ops arbitrary: w)
  case Nil
  show ?case by simp
next
  case (Cons op ops)
  have "fst ` set (processedVideos (state w))
          \<subseteq> fst ` set (processedVideos (state (snd (applyOp e op w))))"
    by (rule keys_applyOp)
  also have "\<dots> \<subseteq> fst ` set (processedVideos (state (applyOps e ops (snd (applyOp e op w)))))"
    by (rule Cons.IH)
  finally show ?case by simp
qed

text \<open>
  C6. Once \<open>markProcessed\<close> has recorded a video, \<open>isProcessed\<close> of its id is true after
  every further sequence of store operations, whatever the environment does (a failed
  write included); the record stored under the id is the one passed in; and applying
  \<open>markProcessed\<close> a second time with the same record leaves the store state as the
  first application left it.
\<close>

theorem markProcessed_exists_idempotent:
  "isProcessed (state (applyOps e ops (snd (markProcessed e video w)))) (videoId video)
   \<and> map_of (processedVideos (state (snd (markProcessed e video w)))) (videoId video) = Some video
   \<and> state (snd (markProcessed e video (snd (markProcessed e video w))))
       = state (snd (markProcessed e video w))"
proof (intro conjI)
  have "videoId video \<in> fst ` set (processedVideos (state (snd (markProcessed e video w))))"
    by (simp add: videos_markProcessed dom_update)
  then have "videoId video
      \<in> fst ` set (processedVideos (state (applyOps e ops (snd (markProcessed e video w)))))"
    using keys_applyOps by blast
  then show "isProcessed (state (applyOps e ops (snd (markProcessed e video w)))) (videoId video)"
    by (simp add: isProcessed_def)
next
  show "map_of (processedVideos (state (snd (markProcessed e video w)))) (videoId video) = Some video"
    by (simp add: videos_markProcessed update_conv')
next
  show "state (snd (markProcessed e video (snd (markProcessed e video w))))
       = state (snd (markProcessed e video w))"
    by (simp add: markProcessed_def setVideo_def)
qed

text \<open>
  C10. For a \<open>videoId\<close> with no record in the store, \<open>updateWebhookStatus\<close> returns
  normally and leaves the whole world as it was: the store state, the state file, the
  trace of effects (no write is issued) and the write counter.
\<close>

theorem updateWebhookStatus_absent:
  "\<not> isProcessed (state w) vid \<Longrightarrow> updateWebhookStatus e vid status newCount w = (Inr (), w)"
proof -
  assume "\<not> isProcessed (state w) vid"
  then have "map_of (processedVideos (state w)) vid = None"
    by (simp add: isProcessed_def map_of_eq_None_iff)
  then show ?thesis by (simp add: updateWebhookStatus_def)
qed

theorem updateWebhookStatus_absent_witness:
  "\<not> isProcessed (state world0) ''v1''
   \<and> updateWebhookStatus env0 ''v1'' sent (Some 1) world0 = (Inr (), world0)"
proof -
  have h: "\<not> isProcessed (state world0) ''v1''"
    by (simp add: isProcessed_def world0_def)
  from h updateWebhookStatus_absent [OF h] show ?thesis by blast
qed

lemma slice0_nonneg: "0 \<le> n \<Longrightarrow> slice0 xs n = take (nat n) xs"
  by (simp add: slice0_def)










text \<open>
  No caller passes a negative limit: the command line clamps it to \<open>1..100\<close> and the
  HTTP routes pass 100. For such a limit \<open>slice(0, limit)\<close> counts from the end of the
  array, so all records but the last \<open>-limit\<close> are returned.
\<close>

lemma getHistory_negative:
  "limit < 0 \<Longrightarrow>
   length (getHistory st limit) = nat (int (length (processedVideos st)) + limit)"
  by (simp add: getHistory_def Let_def slice0_def DEFAULT_HISTORY_LIMIT_def)

section \<open>Properties of \<open>save\<close> and \<open>load\<close>\<close>

subsection \<open>Objects\<close>

lemma update_fresh: "k \<notin> fst ` set al \<Longrightarrow> AList.update k v al = al @ [(k, v)]"
  by (induction al) auto

lemma foldl_update_distinct:
  "distinct (map fst (acc @ ps)) \<Longrightarrow>
   foldl (\<lambda>obj p. AList.update (fst p) (snd p) obj) acc ps = acc @ ps"
proof (induction ps arbitrary: acc)
  case Nil
  show ?case by simp
next
  case (Cons p ps)
  have fresh: "fst p \<notin> fst ` set acc" using Cons.prems by auto
  have "distinct (map fst ((acc @ [p]) @ ps))" using Cons.prems by simp
  from Cons.IH [OF this] show ?case
    by (simp add: update_fresh [OF fresh])
qed

lemma createObject_distinct: "distinct (map fst ps) \<Longrightarrow> createObject ps = ps"
  unfolding createObject_def using foldl_update_distinct [of "[]" ps] by simp

lemma mset_ownProperties: "mset (ownProperties ps) = mset ps"
  by (simp add: ownProperties_def)

lemma set_ownProperties: "set (ownProperties ps) = set ps"
  using mset_ownProperties [of ps] by (metis set_mset_mset)

lemma distinct_keys_ownProperties:
  "distinct (map fst (ownProperties ps)) = distinct (map fst ps)"
proof -
  have "mset (map fst (ownProperties ps)) = mset (map fst ps)"
    by (simp add: mset_ownProperties)
  then show ?thesis by (rule mset_eq_imp_distinct_iff)
qed

lemma map_of_ownProperties:
  assumes "distinct (map fst ps)"
  shows "map_of (ownProperties ps) = map_of ps"
  using assms by (simp add: map_of_inject_set distinct_keys_ownProperties set_ownProperties)

lemma partition_sort_idem:
  fixes P :: "'a \<Rightarrow> bool" and f :: "'a \<Rightarrow> int"
  defines "part \<equiv> \<lambda>xs. sort_key f (filter P xs) @ filter (\<lambda>x. \<not> P x) xs"
  shows "part (part xs) = part xs"
proof -
  have a: "filter P (sort_key f (filter P xs)) = sort_key f (filter P xs)"
    by (simp add: filter_sort)
  have b: "filter P (filter (\<lambda>x. \<not> P x) xs) = []"
    by (simp add: filter_empty_conv)
  have c: "filter (\<lambda>x. \<not> P x) (sort_key f (filter P xs)) = []"
    by (simp add: filter_sort filter_empty_conv)
  have e: "sort_key f (sort_key f (filter P xs)) = sort_key f (filter P xs)"
    by (rule sort_key_id_if_sorted) simp
  show ?thesis
    unfolding part_def filter_append a b c by (simp add: e)
qed

lemma ownProperties_idem: "ownProperties (ownProperties ps) = ownProperties ps"
proof -
  have alt: "ownProperties = (\<lambda>xs :: (string \<times> 'a) list.
      sort_key indexKey (filter (\<lambda>p. arrayIndex (fst p) \<noteq> None) xs)
      @ filter (\<lambda>p. \<not> arrayIndex (fst p) \<noteq> None) xs)"
    by (rule ext) (simp add: ownProperties_def)
  show ?thesis
    unfolding alt by (rule partition_sort_idem)
qed

lemma ownProperties_no_index:
  "\<forall>k \<in> set (map fst ps). arrayIndex k = None \<Longrightarrow> ownProperties ps = ps"
  by (auto simp add: ownProperties_def filter_empty_conv filter_id_conv)

lemma fromEntries_distinct: "distinct (map fst ps) \<Longrightarrow> fromEntries ps = ownProperties ps"
  by (simp add: fromEntries_def createObject_distinct)

lemma fromEntries_ownProperties:
  "distinct (map fst ps) \<Longrightarrow> fromEntries (ownProperties ps) = ownProperties ps"
  by (simp add: fromEntries_def createObject_distinct distinct_keys_ownProperties ownProperties_idem)

lemma insort_key_map_value:
  "insort_key indexKey (k, f v) (map (\<lambda>(k, v). (k, f v)) xs)
     = map (\<lambda>(k, v). (k, f v)) (insort_key indexKey (k, v) xs)"
  by (induction xs) (auto simp add: indexKey_def)

lemma sort_key_map_value:
  "sort_key indexKey (map (\<lambda>(k, v). (k, f v)) xs) = map (\<lambda>(k, v). (k, f v)) (sort_key indexKey xs)"
proof (induction xs)
  case Nil
  show ?case by simp
next
  case (Cons x xs)
  obtain k v where x: "x = (k, v)" by (cases x)
  show ?case using Cons.IH by (simp add: x insort_key_map_value)
qed

lemma ownProperties_map_value:
  "ownProperties (map (\<lambda>(k, v). (k, f v)) ps) = map (\<lambda>(k, v). (k, f v)) (ownProperties ps)"
proof -
  have f: "\<And>P. filter (\<lambda>p. P (fst p)) (map (\<lambda>(k, v). (k, f v)) ps)
              = map (\<lambda>(k, v). (k, f v)) (filter (\<lambda>p. P (fst p)) ps)"
    by (induction ps) auto
  show ?thesis
    unfolding ownProperties_def f [of "\<lambda>k. arrayIndex k \<noteq> None"] f [of "\<lambda>k. arrayIndex k = None"]
    by (simp add: sort_key_map_value)
qed


subsection \<open>Sorting records with pairwise different keys\<close>

lemma filter_same_key:
  "distinct (map f xs) \<Longrightarrow> k \<in> set xs \<Longrightarrow> filter (\<lambda>x. f k = f x) xs = [k]"
proof (induction xs)
  case Nil
  then show ?case by simp
next
  case (Cons x xs)
  show ?case
  proof (cases "k = x")
    case True
    have "filter (\<lambda>y. f x = f y) xs = []"
      using Cons.prems(1) by (auto simp add: filter_empty_conv)
    with True show ?thesis by simp
  next
    case False
    then have k: "k \<in> set xs" using Cons.prems(2) by simp
    then have "f k \<in> f ` set xs" by (rule imageI)
    moreover have "f x \<notin> f ` set xs" using Cons.prems(1) by simp
    ultimately have "f k \<noteq> f x" by metis
    with Cons.IH k Cons.prems(1) show ?thesis by simp
  qed
qed

lemma sort_key_permutation:
  assumes "mset xs = mset ys" and "distinct (map f xs)"
  shows "sort_key f xs = sort_key f ys"
proof (rule properties_for_sort_key)
  show "mset (sort_key f ys) = mset xs" using assms(1) by simp
  show "sorted (map f (sort_key f ys))" by simp
  fix k assume "k \<in> set (sort_key f ys)"
  then have kx: "k \<in> set xs" using assms(1) by (metis mset_sort set_mset_mset)
  have "mset (map f (sort_key f ys)) = mset (map f xs)" using assms(1) by simp
  then have dy: "distinct (map f (sort_key f ys))"
    using assms(2) by (metis mset_eq_imp_distinct_iff)
  have ky: "k \<in> set (sort_key f ys)" by fact
  show "filter (\<lambda>x. f k = f x) (sort_key f ys) = filter (\<lambda>x. f k = f x) xs"
    by (simp only: filter_same_key [OF dy ky] filter_same_key [OF assms(2) kx])
qed

subsection \<open>Reading back what \<open>save\<close> wrote\<close>

lemma asStatus_statusString [simp]: "asStatus (statusString s) = Some s"
  by (cases s) (simp_all add: asStatus_def statusString_def)

lemma arrayIndex_letter: "\<not> digit c \<Longrightarrow> arrayIndex (c # s) = None"
  by (simp add: arrayIndex_def)

lemma entries_videoJSON:
  "entries (videoJSON e v) =
     [(''videoId'', JStr (videoId v)),
      (''author'', JStr (author v)),
      (''processedAt'', JStr (toISOString e (processedAt v))),
      (''webhookStatus'', JStr (statusString (webhookStatus v))),
      (''retryCount'', JNum (retryCount v))]"
  by (simp add: videoJSON_def fromEntries_def createObject_def ownProperties_def
      arrayIndex_letter digit_def)

lemma member_videoJSON_processedAt:
  "member (videoJSON e v) ''processedAt'' = Some (JStr (toISOString e (processedAt v)))"
  by (simp add: videoJSON_def createObject_def)

lemma loadVideo_videoJSON: "loadVideo parse (videoJSON e v) = Inr (loadedVideo e parse v)"
  unfolding loadVideo_def entries_videoJSON member_videoJSON_processedAt
  by (simp add: videoJSON_def loadedVideo_def)

lemma loadTimes_strings:
  "loadTimes parse (map (\<lambda>(key, t). (key, JStr (toISOString e t))) qs)
     = Inr (map (\<lambda>(key, t). (key, parse (JStr (toISOString e t)))) qs)"
  for qs :: "(string \<times> int) list"
  by (induction qs) auto

lemma asProcessedVideo_loadedVideo:
  "parse (JStr (toISOString e (processedAt v))) = Date (processedAt v) \<Longrightarrow>
   asProcessedVideo (loadedVideo e parse v) = Some v"
  by (simp add: asProcessedVideo_def loadedVideo_def)

lemma loadVideos_videoJSON:
  "loadVideos parse (map (\<lambda>(key, v). (key, videoJSON e v)) qs)
     = Inr (map (\<lambda>(key, v). (key, loadedVideo e parse v)) qs)"
  by (induction qs) (auto simp add: loadVideo_videoJSON)

lemma asEntries_Cons:
  "asEntries f ((k, v) # kvs) =
     (case f v of None \<Rightarrow> None
      | Some y \<Rightarrow> (case asEntries f kvs of None \<Rightarrow> None | Some ys \<Rightarrow> Some ((k, y) # ys)))"
  by (simp add: asEntries_def split: option.splits)

lemma asEntries_Nil [simp]: "asEntries f [] = Some []"
  by (simp add: asEntries_def)

lemma asEntries_map:
  "\<forall>v \<in> snd ` set qs. f (g v) = Some v \<Longrightarrow>
   asEntries f (map (\<lambda>(key, v). (key, g v)) qs) = Some qs"
  by (induction qs) (auto simp add: asEntries_Cons)


lemma keys_map_value: "map fst (map (\<lambda>(k, v). (k, f v)) ps) = map fst ps"
  by (induction ps) auto

lemma entries_fromEntries_map:
  assumes "distinct (map fst ps)"
  shows "entries (JObj (fromEntries (map (\<lambda>(k, v). (k, f v)) ps)))
           = map (\<lambda>(k, v). (k, f v)) (ownProperties ps)"
proof -
  let ?X = "map (\<lambda>(k, v). (k, f v)) ps"
  have d: "distinct (map fst ?X)" using assms by (simp only: keys_map_value)
  have "entries (JObj (fromEntries ?X)) = fromEntries (ownProperties ?X)"
    by (simp add: fromEntries_distinct [OF d])
  also have "\<dots> = ownProperties ?X" by (rule fromEntries_ownProperties [OF d])
  also have "\<dots> = map (\<lambda>(k, v). (k, f v)) (ownProperties ps)" by (rule ownProperties_map_value)
  finally show ?thesis .
qed

lemma member_stateJSON:
  "member (stateJSON e st) ''processedVideos'' =
     Some (JObj (fromEntries (map (\<lambda>(key, v). (key, videoJSON e v)) (processedVideos st))))"
  "member (stateJSON e st) ''lastCheckTimes'' =
     Some (JObj (fromEntries (map (\<lambda>(key, t). (key, JStr (toISOString e t))) (lastCheckTimes st))))"
  by (simp_all add: stateJSON_def createObject_def)

lemma stateJSON_not_null: "stateJSON e st \<noteq> JNull"
  by (simp add: stateJSON_def)

lemma load_stateJSON:
  assumes "distinct (map fst (processedVideos st))" and "distinct (map fst (lastCheckTimes st))"
  shows "load parse (Parsed (stateJSON e st)) =
           Inr \<lparr>loadedVideos =
                  map (\<lambda>(key, v). (key, loadedVideo e parse v)) (ownProperties (processedVideos st)),
                loadedCheckTimes =
                  map (\<lambda>(key, t). (key, parse (JStr (toISOString e t))))
                    (ownProperties (lastCheckTimes st))\<rparr>"
  unfolding load_def
  by (simp only: backing.case member_stateJSON orEmpty.simps stateJSON_not_null if_False
      entries_fromEntries_map [OF assms(1)] entries_fromEntries_map [OF assms(2)]
      loadVideos_videoJSON loadTimes_strings sum.case)

lemma asDate_Date [simp]: "asDate (Date t) = Some t"
  by (simp add: asDate_def)

lemma asState_loaded:
  assumes "\<forall>v \<in> snd ` set pvs. parse (JStr (toISOString e (processedAt v))) = Date (processedAt v)"
    and "\<forall>t \<in> snd ` set lcs. parse (JStr (toISOString e t)) = Date t"
  shows "asState \<lparr>loadedVideos = map (\<lambda>(key, v). (key, loadedVideo e parse v)) pvs,
                  loadedCheckTimes = map (\<lambda>(key, t). (key, parse (JStr (toISOString e t)))) lcs\<rparr>
         = Some \<lparr>processedVideos = pvs, lastCheckTimes = lcs\<rparr>"
proof -
  have a: "asEntries asProcessedVideo (map (\<lambda>(key, v). (key, loadedVideo e parse v)) pvs) = Some pvs"
    by (rule asEntries_map) (simp add: assms(1) asProcessedVideo_loadedVideo)
  have b: "asEntries asDate (map (\<lambda>(key, t). (key, parse (JStr (toISOString e t)))) lcs) = Some lcs"
    by (rule asEntries_map) (simp add: assms(2))
  show ?thesis by (simp add: asState_def a b)
qed

lemma disk_save: "fst (save e w) = Inr () \<Longrightarrow> disk (snd (save e w)) = Parsed (stateJSON e (state w))"
  by (simp add: save_def emit_def split: if_splits)

lemma isProcessed_map_of: "isProcessed st vid = (map_of (processedVideos st) vid \<noteq> None)"
  by (simp add: isProcessed_def map_of_eq_None_iff)

lemma getHistory_cong:
  "sort_key (\<lambda>v. - processedAt v) (map snd (processedVideos st'))
     = sort_key (\<lambda>v. - processedAt v) (map snd (processedVideos st)) \<Longrightarrow>
   getHistory st' limit = getHistory st limit"
  by (simp add: getHistory_def)

text \<open>
  C4, as amended. Let the store hold valid dates that \<open>new Date\<close> reads back from their
  ISO strings, and let \<open>save\<close> succeed. Then \<open>load\<close> returns without error a store that
  has the declared type, in which \<open>isProcessed\<close> and \<open>getLastCheckTime\<close> answer as before
  and every id maps to the same record, all fields equal. \<open>getHistory\<close> returns the same
  list for every limit when no two records have the same \<open>processedAt\<close>, and also when
  no video id is an array index.
\<close>

theorem save_load_roundtrip:
  assumes "distinct (map fst (processedVideos (state w)))"
    and "distinct (map fst (lastCheckTimes (state w)))"
    and "\<forall>v \<in> snd ` set (processedVideos (state w)).
           dateParse e (JStr (toISOString e (processedAt v))) = Date (processedAt v)"
    and "\<forall>t \<in> snd ` set (lastCheckTimes (state w)). dateParse e (JStr (toISOString e t)) = Date t"
    and "fst (save e w) = Inr ()"
  shows
    "\<exists>l st'. load (dateParse e) (disk (snd (save e w))) = Inr l \<and> asState l = Some st'
       \<and> (\<forall>vid. isProcessed st' vid = isProcessed (state w) vid)
       \<and> map_of (processedVideos st') = map_of (processedVideos (state w))
       \<and> (\<forall>a. getLastCheckTime st' a = getLastCheckTime (state w) a)
       \<and> (distinct (map (\<lambda>p. processedAt (snd p)) (processedVideos (state w))) \<longrightarrow>
            (\<forall>limit. getHistory st' limit = getHistory (state w) limit))
       \<and> ((\<forall>k \<in> set (map fst (processedVideos (state w))). arrayIndex k = None) \<longrightarrow>
            (\<forall>limit. getHistory st' limit = getHistory (state w) limit))"
proof -
  let ?pvs = "processedVideos (state w)" and ?lcs = "lastCheckTimes (state w)"
  define l where "l = \<lparr>loadedVideos =
                  map (\<lambda>(key, v). (key, loadedVideo e (dateParse e) v)) (ownProperties ?pvs),
                loadedCheckTimes =
                  map (\<lambda>(key, t). (key, dateParse e (JStr (toISOString e t)))) (ownProperties ?lcs)\<rparr>"
  define st' where "st' = \<lparr>processedVideos = ownProperties ?pvs, lastCheckTimes = ownProperties ?lcs\<rparr>"
  have 1: "load (dateParse e) (disk (snd (save e w))) = Inr l"
    unfolding disk_save [OF assms(5)] l_def by (rule load_stateJSON [OF assms(1,2)])
  have 2: "asState l = Some st'"
    unfolding l_def st'_def
  proof (rule asState_loaded)
    show "\<forall>v \<in> snd ` set (ownProperties ?pvs).
           dateParse e (JStr (toISOString e (processedAt v))) = Date (processedAt v)"
      using assms(3) by (simp only: set_ownProperties)
    show "\<forall>t \<in> snd ` set (ownProperties ?lcs). dateParse e (JStr (toISOString e t)) = Date t"
      using assms(4) by (simp only: set_ownProperties)
  qed
  have 3: "map_of (processedVideos st') = map_of ?pvs"
    by (simp add: st'_def map_of_ownProperties [OF assms(1)])
  have 4: "isProcessed st' vid = isProcessed (state w) vid" for vid
    by (simp add: isProcessed_map_of 3)
  have 5: "getLastCheckTime st' a = getLastCheckTime (state w) a" for a
    by (simp add: getLastCheckTime_def st'_def map_of_ownProperties [OF assms(2)])
  have 6: "getHistory st' limit = getHistory (state w) limit"
    if "distinct (map (\<lambda>p. processedAt (snd p)) ?pvs)" for limit
  proof (rule getHistory_cong, rule sort_key_permutation)
    show "mset (map snd (processedVideos st')) = mset (map snd ?pvs)"
      by (simp add: st'_def mset_ownProperties)
    have "mset (map (\<lambda>p. processedAt (snd p)) (ownProperties ?pvs))
            = mset (map (\<lambda>p. processedAt (snd p)) ?pvs)"
      by (simp add: mset_ownProperties)
    then have "distinct (map (\<lambda>p. processedAt (snd p)) (ownProperties ?pvs))"
      using that by (metis mset_eq_imp_distinct_iff)
    then have "distinct (map processedAt (map snd (ownProperties ?pvs)))"
      by (simp add: comp_def)
    then show "distinct (map (\<lambda>v. - processedAt v) (map snd (processedVideos st')))"
      by (simp add: st'_def distinct_map comp_def inj_on_def)
  qed
  have 7: "getHistory st' limit = getHistory (state w) limit"
    if "\<forall>k \<in> set (map fst ?pvs). arrayIndex k = None" for limit
    by (rule getHistory_cong) (simp add: st'_def ownProperties_no_index [OF that])
  from 1 2 3 4 5 6 7 show ?thesis by blast
qed

theorem save_load_roundtrip_witness:
  "distinct (map fst (processedVideos (state (world0\<lparr>state := otherVideos\<rparr>))))
   \<and> distinct (map fst (lastCheckTimes (state (world0\<lparr>state := otherVideos\<rparr>))))
   \<and> fst (save env0 (world0\<lparr>state := otherVideos\<rparr>)) = Inr ()
   \<and> distinct (map (\<lambda>p. processedAt (snd p)) (processedVideos (state (world0\<lparr>state := otherVideos\<rparr>))))
   \<and> map fst (processedVideos (state (world0\<lparr>state := otherVideos\<rparr>))) = [''v2'', ''v1'']
   \<and> arrayIndex ''v2'' = None \<and> arrayIndex ''v1'' = None
   \<and> (\<exists>l st'. load (dateParse env0) (disk (snd (save env0 (world0\<lparr>state := otherVideos\<rparr>)))) = Inr l
         \<and> asState l = Some st'
         \<and> (\<forall>vid. isProcessed st' vid = isProcessed otherVideos vid)
         \<and> (\<forall>a. getLastCheckTime st' a = getLastCheckTime otherVideos a)
         \<and> (\<forall>limit. getHistory st' limit = getHistory otherVideos limit))"
proof -
  let ?w = "world0\<lparr>state := otherVideos\<rparr>"
  have st: "state ?w = otherVideos" by simp
  have h1: "distinct (map fst (processedVideos (state ?w)))"
    by (simp add: otherVideos_def)
  have h2: "distinct (map fst (lastCheckTimes (state ?w)))"
    by (simp add: otherVideos_def)
  have h3: "\<forall>v \<in> snd ` set (processedVideos (state ?w)).
           dateParse env0 (JStr (toISOString env0 (processedAt v))) = Date (processedAt v)"
    by (simp add: otherVideos_def env0_def pv0_def)
  have h4: "\<forall>t \<in> snd ` set (lastCheckTimes (state ?w)).
           dateParse env0 (JStr (toISOString env0 t)) = Date t"
    by (simp add: otherVideos_def env0_def)
  have h5: "fst (save env0 ?w) = Inr ()"
    by (simp add: save_def env0_def world0_def)
  have h6: "distinct (map (\<lambda>p. processedAt (snd p)) (processedVideos (state ?w)))"
    by (simp add: otherVideos_def pv0_def)
  have h7: "\<forall>k \<in> set (map fst (processedVideos (state ?w))). arrayIndex k = None"
    by (simp add: otherVideos_def arrayIndex_letter digit_def)
  from save_load_roundtrip [OF h1 h2 h3 h4 h5] h6
  have "\<exists>l st'. load (dateParse env0) (disk (snd (save env0 ?w))) = Inr l
         \<and> asState l = Some st'
         \<and> (\<forall>vid. isProcessed st' vid = isProcessed otherVideos vid)
         \<and> (\<forall>a. getLastCheckTime st' a = getLastCheckTime otherVideos a)
         \<and> (\<forall>limit. getHistory st' limit = getHistory otherVideos limit)"
    unfolding st by blast
  moreover have "map fst (processedVideos (state ?w)) = [''v2'', ''v1'']"
    by (simp add: otherVideos_def)
  moreover have "arrayIndex ''v2'' = None \<and> arrayIndex ''v1'' = None"
    by (simp add: arrayIndex_letter digit_def)
  ultimately show ?thesis using h1 h2 h5 h6 by blast
qed

text \<open>
  C4 as stated fails: a JavaScript object enumerates array-index keys first, in
  numeric order. Two records with ids \<open>2\<close> and \<open>1\<close>, inserted in this order with equal
  \<open>processedAt\<close>, come back from \<open>save\<close> and \<open>load\<close> in the order \<open>1\<close>, \<open>2\<close>, and the
  stable sort of \<open>getHistory\<close> then returns them in the other order.
\<close>

theorem save_load_reorders_equal_times:
  "fst (save env0 (world0\<lparr>state := twoVideos\<rparr>)) = Inr ()
   \<and> map_sum id asState (load (dateParse env0) (disk (snd (save env0 (world0\<lparr>state := twoVideos\<rparr>)))))
       = Inr (Some \<lparr>processedVideos = [(''1'', pv0 ''1'' 1000), (''2'', pv0 ''2'' 1000)],
                     lastCheckTimes = [(''a'', 1000)]\<rparr>)
   \<and> getHistory twoVideos 100 = [pv0 ''2'' 1000, pv0 ''1'' 1000]
   \<and> getHistory \<lparr>processedVideos = [(''1'', pv0 ''1'' 1000), (''2'', pv0 ''2'' 1000)],
                  lastCheckTimes = [(''a'', 1000)]\<rparr> 100
       = [pv0 ''1'' 1000, pv0 ''2'' 1000]
   \<and> pv0 ''2'' 1000 \<noteq> pv0 ''1'' 1000"
proof -
  let ?w = "world0\<lparr>state := twoVideos\<rparr>"
  have st: "state ?w = twoVideos" by simp
  have h5: "fst (save env0 ?w) = Inr ()"
    by (simp add: save_def env0_def world0_def)
  have d1: "distinct (map fst (processedVideos twoVideos))" by (simp add: twoVideos_def)
  have d2: "distinct (map fst (lastCheckTimes twoVideos))" by (simp add: twoVideos_def)
  have ix1: "arrayIndex ''1'' = Some 1" and ix2: "arrayIndex ''2'' = Some 2"
    and ixa: "arrayIndex ''a'' = None"
    by (simp_all add: arrayIndex_def digit_def decimal_def digitValue_def)
  have o1: "ownProperties (processedVideos twoVideos) = [(''1'', pv0 ''1'' 1000), (''2'', pv0 ''2'' 1000)]"
    by (simp add: ownProperties_def twoVideos_def ix1 ix2 indexKey_def)
  have o2: "ownProperties (lastCheckTimes twoVideos) = [(''a'', 1000)]"
    by (simp add: ownProperties_def twoVideos_def ixa)
  have ld: "load (dateParse env0) (disk (snd (save env0 ?w))) =
      Inr \<lparr>loadedVideos = map (\<lambda>(key, v). (key, loadedVideo env0 (dateParse env0) v))
                [(''1'', pv0 ''1'' 1000), (''2'', pv0 ''2'' 1000)],
            loadedCheckTimes = map (\<lambda>(key, t). (key, dateParse env0 (JStr (toISOString env0 t))))
                [(''a'', 1000)]\<rparr>"
    unfolding disk_save [OF h5] st load_stateJSON [OF d1 d2] o1 o2 ..
  have as: "asState \<lparr>loadedVideos = map (\<lambda>(key, v). (key, loadedVideo env0 (dateParse env0) v))
                [(''1'', pv0 ''1'' 1000), (''2'', pv0 ''2'' 1000)],
            loadedCheckTimes = map (\<lambda>(key, t). (key, dateParse env0 (JStr (toISOString env0 t))))
                [(''a'', 1000)]\<rparr>
      = Some \<lparr>processedVideos = [(''1'', pv0 ''1'' 1000), (''2'', pv0 ''2'' 1000)],
                     lastCheckTimes = [(''a'', 1000)]\<rparr>"
    by (rule asState_loaded [where pvs = "[(''1'', pv0 ''1'' 1000), (''2'', pv0 ''2'' 1000)]"
          and lcs = "[(''a'', 1000)]" and parse = "dateParse env0" and e = env0])
       (simp_all add: env0_def pv0_def)
  have g1: "getHistory twoVideos 100 = [pv0 ''2'' 1000, pv0 ''1'' 1000]"
    by (simp add: getHistory_def twoVideos_def slice0_def DEFAULT_HISTORY_LIMIT_def pv0_def)
  have g2: "getHistory \<lparr>processedVideos = [(''1'', pv0 ''1'' 1000), (''2'', pv0 ''2'' 1000)],
                  lastCheckTimes = [(''a'', 1000)]\<rparr> 100
       = [pv0 ''1'' 1000, pv0 ''2'' 1000]"
    by (simp add: getHistory_def slice0_def DEFAULT_HISTORY_LIMIT_def pv0_def)
  have ne: "pv0 ''2'' 1000 \<noteq> pv0 ''1'' 1000" by (simp add: pv0_def)
  have both: "map_sum id asState (load (dateParse env0) (disk (snd (save env0 ?w))))
       = Inr (Some \<lparr>processedVideos = [(''1'', pv0 ''1'' 1000), (''2'', pv0 ''2'' 1000)],
                     lastCheckTimes = [(''a'', 1000)]\<rparr>)"
    unfolding ld by (simp only: map_sum.simps as)
  from h5 both g1 g2 ne show ?thesis by blast
qed











section \<open>Properties of the scheduler\<close>

subsection \<open>What each operation leaves alone\<close>

lemma emit_simps [simp]:
  "trace (emit ev w) = trace w @ [ev]"
  "disk (emit ev w) = disk w"
  "n_latest (emit ev w) = n_latest w"
  "n_byid (emit ev w) = n_byid w"
  "n_now (emit ev w) = n_now w"
  "n_random (emit ev w) = n_random w"
  "n_write (emit ev w) = n_write w"
  by (simp_all add: emit_def)

lemma logger_simps [simp]:
  "trace (logger m w) = trace w @ [Log m]"
  "state (logger m w) = state w"
  "disk (logger m w) = disk w"
  "n_post (logger m w) = n_post w"
  "n_latest (logger m w) = n_latest w"
  "n_byid (logger m w) = n_byid w"
  "n_now (logger m w) = n_now w"
  "n_random (logger m w) = n_random w"
  "n_write (logger m w) = n_write w"
  by (simp_all add: logger_def)



lemma save_frame [simp]:
  "n_post (snd (save e w)) = n_post w"
  "n_latest (snd (save e w)) = n_latest w"
  "n_byid (snd (save e w)) = n_byid w"
  "n_now (snd (save e w)) = n_now w"
  "n_random (snd (save e w)) = n_random w"
  "n_write (snd (save e w)) = Suc (n_write w)"
  by (simp_all add: save_def)




lemma sendLoop_result:
  "a < T \<Longrightarrow>
   \<exists>result. fst (sendLoop e p T a c lr w) = Some result
     \<and> c < attempts result \<and> attempts result \<le> c + (T - a)"
proof (induction e p T a c lr w rule: sendLoop.induct)
  case (1 e p T a c lr w)
  have lt: "a < T" by fact
  show ?case
  proof (cases "post e (n_post w)")
    case (Responded s)
    with lt show ?thesis by (subst sendLoop.simps) (simp add: Let_def)
  next
    case (Rejected s m)
    define w2 where "w2 = (if a < T - 1
       then emit (Sleep (2 ^ nat a * 1000)) (emit (Post a p) (w\<lparr>n_post := Suc (n_post w)\<rparr>))
       else emit (Post a p) (w\<lparr>n_post := Suc (n_post w)\<rparr>))"
    define lr0 where
      "lr0 = Some \<lparr>success = False, statusCode = s, error = Some m, attempts = c + 1\<rparr>"
    have step: "sendLoop e p T a c lr w = sendLoop e p T (a + 1) (c + 1) lr0 w2"
      by (subst sendLoop.simps) (simp add: lt Rejected Let_def w2_def lr0_def)
    show ?thesis
    proof (cases "a + 1 < T")
      case True
      have "\<exists>result. fst (sendLoop e p T (a + 1) (c + 1) lr0 w2) = Some result
         \<and> c + 1 < attempts result \<and> attempts result \<le> c + 1 + (T - (a + 1))"
        using "1.IH" [OF lt refl refl Rejected True] by (simp add: w2_def lr0_def)
      then show ?thesis unfolding step by auto
    next
      case False
      have "sendLoop e p T (a + 1) (c + 1) lr0 w2 = (lr0, w2)"
        using False by (subst sendLoop.simps) simp
      then show ?thesis unfolding step using lt by (simp add: lr0_def)
    qed
  qed
qed


lemma sendWithRetry_result:
  "0 \<le> m \<Longrightarrow>
   \<exists>result. fst (sendWithRetry e p m w) = Some result
     \<and> 1 \<le> attempts result \<and> attempts result \<le> m + 1"
  using sendLoop_result [of 0 "m + 1" e p 0 None w] by (auto simp add: sendWithRetry_def)

lemma andThen_Inl [simp]: "andThen (Inl err, w) f = (Inl err, w)"
  by (simp add: andThen_def)

lemma andThen_Inr [simp]: "andThen (Inr x, w) f = f x w"
  by (simp add: andThen_def)

lemma setVideo_simps [simp]:
  "processedVideos (state (setVideo key v w)) = AList.update key v (processedVideos (state w))"
  "lastCheckTimes (state (setVideo key v w)) = lastCheckTimes (state w)"
  "trace (setVideo key v w) = trace w"
  "disk (setVideo key v w) = disk w"
  "n_post (setVideo key v w) = n_post w"
  "n_latest (setVideo key v w) = n_latest w"
  "n_byid (setVideo key v w) = n_byid w"
  "n_now (setVideo key v w) = n_now w"
  "n_random (setVideo key v w) = n_random w"
  "n_write (setVideo key v w) = n_write w"
  by (simp_all add: setVideo_def)







lemma createPayload_invalid:
  "createPayload e video = Inl err \<Longrightarrow> err = RangeError \<and> \<not> validDate (vm_publishedAt video)"
  by (simp add: createPayload_def validDate_def split: jsdate.splits)







lemma deliveries_append [simp]: "deliveries (xs @ ys) = deliveries xs @ deliveries ys"
  by (induction xs rule: deliveries.induct) simp_all

lemma fetches_append [simp]: "fetches (xs @ ys) = fetches xs @ fetches ys"
  by (induction xs rule: fetches.induct) simp_all

lemma trace_emit_n_post [simp]: "trace (emit ev (w\<lparr>n_post := k\<rparr>)) = trace w @ [ev]"
  by (simp add: emit_def)



lemma sendWithRetry_None:
  "fst (sendWithRetry e p m w) = None \<Longrightarrow> m < 0"
  using sendWithRetry_result [of m e p w] by (cases "0 \<le> m") auto

lemma save_traces [simp]:
  "deliveries (trace (snd (save e w))) = deliveries (trace w)"
  "fetches (trace (snd (save e w))) = fetches (trace w)"
  by (simp_all add: save_def)











lemma isProcessed_emit [simp]: "isProcessed (state (emit ev w)) k = isProcessed (state w) k"
  by (simp add: emit_def)














subsection \<open>The poll cycle\<close>



lemma deliveries_Delay [simp]: "deliveries (map Delay ds) = []"
  by (induction ds) simp_all

lemma fetches_Delay [simp]: "fetches (map Delay ds) = []"
  by (induction ds) simp_all










end
